theory Spec2Isabelle
  imports Main
begin

section \<open>JavaScript values\<close>

text \<open>
  The values the three source files handle: tokens, user objects, response bodies and
  error details. Numbers are left out: no value that the code inspects (the token, the
  \<open>detail\<close> of an error, the \<open>role\<close> of a user) is read as a number, and the
  coordinates of the map are kept abstract below. An object is the list of its
  properties; a property is read with \<open>map_of\<close>.
\<close>

datatype jsval =
    JUndefined
  | JNull
  | JBool bool
  | JStr string
  | JObj "(string \<times> jsval) list"

text \<open>\<open>!x\<close> is \<open>\<not> truthy x\<close>: the empty string is false like null and undefined.\<close>

fun truthy :: "jsval \<Rightarrow> bool" where
  "truthy JUndefined = False"
| "truthy JNull = False"
| "truthy (JBool b) = b"
| "truthy (JStr s) = (s \<noteq> [])"
| "truthy (JObj kvs) = True"

text \<open>The string a template literal or \<open>localStorage.setItem\<close> makes of a value.\<close>

fun to_string :: "jsval \<Rightarrow> string" where
  "to_string JUndefined = ''undefined''"
| "to_string JNull = ''null''"
| "to_string (JBool b) = (if b then ''true'' else ''false'')"
| "to_string (JStr s) = s"
| "to_string (JObj kvs) = ''[object Object]''"

text \<open>
  What a \<open>catch\<close> block can receive here: the TypeError of a property read on null
  or undefined, or the error of a rejected axios call with its \<open>response\<close> field
  (undefined when the server never answered).
\<close>

datatype js_error = TypeError | AxiosError jsval

fun response :: "js_error \<Rightarrow> jsval" where
  "response TypeError = JUndefined"
| "response (AxiosError r) = r"

text \<open>
  \<open>x.p\<close>: a TypeError on null and undefined, the property of an object (undefined
  when it has none), and undefined on a string or a boolean, which have none of the
  properties this code reads (\<open>token\<close>, \<open>user\<close>, \<open>role\<close>, \<open>data\<close>, \<open>detail\<close>).
\<close>

fun get_prop :: "jsval \<Rightarrow> string \<Rightarrow> js_error + jsval" where
  "get_prop JUndefined p = Inl TypeError"
| "get_prop JNull p = Inl TypeError"
| "get_prop (JObj kvs) p = Inr (case map_of kvs p of None \<Rightarrow> JUndefined | Some v \<Rightarrow> v)"
| "get_prop (JBool b) p = Inr JUndefined"
| "get_prop (JStr s) p = Inr JUndefined"

text \<open>\<open>x?.p\<close> and \<open>a || b\<close>.\<close>

definition opt_prop :: "jsval \<Rightarrow> string \<Rightarrow> jsval" where
  "opt_prop x p = (case get_prop x p of Inl e \<Rightarrow> JUndefined | Inr v \<Rightarrow> v)"

definition js_or :: "jsval \<Rightarrow> jsval \<Rightarrow> jsval" where
  "js_or a b = (if truthy a then a else b)"

section \<open>The browser around the components\<close>

text \<open>
  Everything the code does to the outside is appended to a list of effects: the calls
  on \<open>localStorage\<close>, the axios requests, the toasts and the navigation.
\<close>

datatype effect =
    StorageGet string
  | StorageSet string string
  | StorageRemove string
  | HttpGet string "(string \<times> string) list"
  | HttpPost string jsval
  | ToastError jsval
  | ToastSuccess jsval
  | Navigate string

text \<open>
  The state of \<open>AuthProvider\<close> (\<open>user\<close>, \<open>token\<close>, \<open>loading\<close>), the
  \<open>localStorage\<close> it mirrors the token to, the number of \<open>/auth/me\<close> requests that
  were sent and not yet answered, the \<open>loading\<close> flag of the Auth page (here
  \<open>submitting\<close>), and the effects so far.
\<close>

record app =
  user :: jsval
  token :: jsval
  loading :: bool
  localStorage :: "string \<rightharpoonup> string"
  awaiting :: nat
  submitting :: bool
  effects :: "effect list"

definition emit :: "effect \<Rightarrow> app \<Rightarrow> app" where
  "emit e s = s\<lparr>effects := effects s @ [e]\<rparr>"

definition token_key :: string where
  "token_key = ''smartplate_token''"

text \<open>\<open>localStorage.getItem\<close>: the stored string, or null.\<close>

definition getItem :: "(string \<rightharpoonup> string) \<Rightarrow> string \<Rightarrow> jsval" where
  "getItem store k = (case store k of None \<Rightarrow> JNull | Some v \<Rightarrow> JStr v)"

text \<open>
  \<open>API\<close> is \<open>`${process.env.REACT_APP_BACKEND_URL}/api`\<close>; the environment variable
  is a parameter of the model.
\<close>

definition API :: "string \<Rightarrow> string" where
  "API backend = backend @ ''/api''"

section \<open>AuthProvider\<close>

definition setAuth :: "jsval \<Rightarrow> jsval \<Rightarrow> app \<Rightarrow> app" where
  "setAuth newToken newUser s =
     (emit (StorageSet token_key (to_string newToken)) s)
       \<lparr>user := newUser, token := newToken,
        localStorage := (localStorage s)(token_key \<mapsto> to_string newToken)\<rparr>"

definition logout :: "app \<Rightarrow> app" where
  "logout s =
     (emit (StorageRemove token_key) s)
       \<lparr>user := JNull, token := JNull,
        localStorage := (localStorage s)(token_key := None)\<rparr>"

text \<open>
  \<open>fetchUser\<close> up to its \<open>await\<close>: without a token it only clears \<open>loading\<close>;
  with one it sends the request and suspends.
\<close>

definition fetchUser :: "string \<Rightarrow> app \<Rightarrow> app" where
  "fetchUser backend s =
     (if \<not> truthy (token s) then s\<lparr>loading := False\<rparr>
      else (emit (HttpGet (API backend @ ''/auth/me'')
                    [(''Authorization'', ''Bearer '' @ to_string (token s))]) s)
             \<lparr>awaiting := Suc (awaiting s)\<rparr>)"

text \<open>
  The rest of \<open>fetchUser\<close>, run when the request is answered: the \<open>try\<close> branch
  with the body of the response, or the \<open>catch\<close> branch, each followed by
  \<open>finally\<close>. Both act on the state of that moment, whatever happened since the
  request was sent: the code cancels nothing.
\<close>

definition fetchUser_resolved :: "jsval \<Rightarrow> app \<Rightarrow> app" where
  "fetchUser_resolved data s = s\<lparr>user := data, loading := False\<rparr>"

definition fetchUser_rejected :: "app \<Rightarrow> app" where
  "fetchUser_rejected s =
     (emit (StorageRemove token_key) s)
       \<lparr>user := JNull, token := JNull, loading := False,
        localStorage := (localStorage s)(token_key := None)\<rparr>"

text \<open>
  \<open>useEffect(..., [token])\<close>: after a render, \<open>fetchUser\<close> runs again when the
  token is not the one of the render before. React compares with \<open>Object.is\<close>,
  which on strings, null, undefined and booleans is equality of values; two object
  tokens are compared by their content here. The state updates of one handler are
  applied together and the effect runs after them, as React batches them.
\<close>

definition token_effect :: "string \<Rightarrow> jsval \<Rightarrow> app \<Rightarrow> app" where
  "token_effect backend prev s =
     (if token s = prev then s else fetchUser backend s)"

text \<open>
  The first render: \<open>token\<close> starts as the stored string, \<open>user\<close> as null,
  \<open>loading\<close> as true, and the effect runs once. Later renders evaluate the same
  \<open>getItem\<close> again and drop its result; only the first read is listed.
\<close>

definition mount :: "string \<Rightarrow> (string \<rightharpoonup> string) \<Rightarrow> app" where
  "mount backend store =
     fetchUser backend
       \<lparr>user = JNull, token = getItem store token_key, loading = True,
        localStorage = store, awaiting = 0, submitting = False,
        effects = [StorageGet token_key]\<rparr>"

text \<open>Two browsers to start from: nothing stored, and a token stored by an earlier visit.\<close>

definition nothing_stored :: "string \<rightharpoonup> string" where
  "nothing_stored = Map.empty"

definition token_stored :: "string \<rightharpoonup> string" where
  "token_stored = [token_key \<mapsto> ''t'']"

text \<open>
  What can happen to a mounted provider: a caller uses \<open>setAuth\<close> or \<open>logout\<close>,
  or one of the requests in flight is answered. Each is followed by the render and its
  effect. An answer without a request in flight is not a step.
\<close>

datatype action =
    SetAuth jsval jsval
  | Logout
  | ProfileResolved jsval
  | ProfileRejected

fun step :: "string \<Rightarrow> action \<Rightarrow> app \<Rightarrow> app option" where
  "step backend (SetAuth t u) s = Some (token_effect backend (token s) (setAuth t u s))"
| "step backend Logout s = Some (token_effect backend (token s) (logout s))"
| "step backend (ProfileResolved data) s =
     (if awaiting s = 0 then None
      else Some (token_effect backend (token s)
                   (fetchUser_resolved data (s\<lparr>awaiting := awaiting s - 1\<rparr>))))"
| "step backend ProfileRejected s =
     (if awaiting s = 0 then None
      else Some (token_effect backend (token s)
                   (fetchUser_rejected (s\<lparr>awaiting := awaiting s - 1\<rparr>))))"

fun run :: "string \<Rightarrow> action list \<Rightarrow> app \<Rightarrow> app option" where
  "run backend [] s = Some s"
| "run backend (a # as) s =
     (case step backend a s of None \<Rightarrow> None | Some s' \<Rightarrow> run backend as s')"


definition mirrored :: "app \<Rightarrow> bool" where
  "mirrored s = (getItem (localStorage s) token_key = token s)"




text \<open>
  The operations that write the token and its stored copy together: \<open>setAuth\<close>
  with a string, \<open>logout\<close> and the failed profile request.
\<close>

fun rewrites_token :: "action \<Rightarrow> bool" where
  "rewrites_token (SetAuth t u) = (case t of JStr x \<Rightarrow> True | _ \<Rightarrow> False)"
| "rewrites_token Logout = True"
| "rewrites_token ProfileRejected = True"
| "rewrites_token (ProfileResolved data) = False"

text \<open>The storage calls among the effects, and the keys they name.\<close>

fun storage_key :: "effect \<Rightarrow> string option" where
  "storage_key (StorageGet k) = Some k"
| "storage_key (StorageSet k v) = Some k"
| "storage_key (StorageRemove k) = Some k"
| "storage_key (HttpGet url hs) = None"
| "storage_key (HttpPost url body) = None"
| "storage_key (ToastError m) = None"
| "storage_key (ToastSuccess m) = None"
| "storage_key (Navigate p) = None"

definition only_token_key :: "effect \<Rightarrow> bool" where
  "only_token_key e = (case storage_key e of None \<Rightarrow> True | Some k \<Rightarrow> k = token_key)"

fun is_request :: "effect \<Rightarrow> bool" where
  "is_request (HttpGet url hs) = True"
| "is_request (HttpPost url body) = True"
| "is_request e = False"

fun is_toast :: "effect \<Rightarrow> bool" where
  "is_toast (ToastError m) = True"
| "is_toast (ToastSuccess m) = True"
| "is_toast e = False"

fun is_navigation :: "effect \<Rightarrow> bool" where
  "is_navigation (Navigate p) = True"
| "is_navigation e = False"

definition requests :: "app \<Rightarrow> effect list" where
  "requests s = filter is_request (effects s)"

definition navigations :: "app \<Rightarrow> effect list" where
  "navigations s = filter is_navigation (effects s)"

section \<open>The Auth page\<close>

text \<open>
  The two forms. Their fields are the strings of the inputs; \<open>signup\<close> has the
  fields of \<open>signin\<close> and three more.
\<close>

record signin =
  email :: string
  password :: string

record signup = signin +
  name :: string
  confirm :: string
  role :: string

text \<open>How an awaited axios call ends: \<open>res.data\<close>, or the error thrown.\<close>

datatype settled = Resolved jsval | Rejected js_error

text \<open>
  \<open>handleSignIn\<close> up to its \<open>await\<close>: the check of the fields, then
  \<open>setLoading(true)\<close> and the request, whose body is the \<open>signin\<close> object.
\<close>

definition handleSignIn :: "string \<Rightarrow> signin \<Rightarrow> app \<Rightarrow> app" where
  "handleSignIn backend form s =
     (if email form = [] \<or> password form = []
      then emit (ToastError (JStr ''Fill all fields'')) s
      else emit (HttpPost (API backend @ ''/auth/login'')
                   (JObj [(''email'', JStr (email form)),
                          (''password'', JStr (password form))]))
             (s\<lparr>submitting := True\<rparr>))"

text \<open>
  The \<open>try\<close> block after the \<open>await\<close>, statement by statement: the state
  reached, and the error when a statement threw.
\<close>

definition signIn_try :: "jsval \<Rightarrow> app \<Rightarrow> app \<times> js_error option" where
  "signIn_try data s =
     (case get_prop data ''token'' of
        Inl e \<Rightarrow> (s, Some e)
      | Inr t \<Rightarrow>
     (case get_prop data ''user'' of
        Inl e \<Rightarrow> (s, Some e)
      | Inr u \<Rightarrow>
     (let s1 = emit (ToastSuccess (JStr ''Welcome back!'')) (setAuth t u s) in
      case get_prop u ''role'' of
        Inl e \<Rightarrow> (s1, Some e)
      | Inr r \<Rightarrow> (emit (Navigate (''/'' @ to_string r @ ''-dashboard'')) s1, None))))"

definition signIn_catch :: "js_error \<Rightarrow> app \<Rightarrow> app" where
  "signIn_catch err s =
     emit (ToastError (js_or (opt_prop (opt_prop (response err) ''data'') ''detail'')
                         (JStr ''Login failed''))) s"

text \<open>
  \<open>handleSignIn\<close> from the \<open>await\<close> on: \<open>try\<close>, \<open>catch\<close>, \<open>finally\<close>,
  then the render and the effect of the provider.
\<close>

definition handleSignIn_settled :: "string \<Rightarrow> settled \<Rightarrow> app \<Rightarrow> app" where
  "handleSignIn_settled backend r s =
     (let s1 = (case r of
                  Rejected err \<Rightarrow> signIn_catch err s
                | Resolved data \<Rightarrow>
                    (case signIn_try data s of
                       (s', None) \<Rightarrow> s'
                     | (s', Some err) \<Rightarrow> signIn_catch err s'))
      in token_effect backend (token s) (s1\<lparr>submitting := False\<rparr>))"

text \<open>\<open>handleSignUp\<close>, in the same three parts.\<close>

definition handleSignUp :: "string \<Rightarrow> signup \<Rightarrow> app \<Rightarrow> app" where
  "handleSignUp backend form s =
     (if name form = [] \<or> email form = [] \<or> password form = []
      then emit (ToastError (JStr ''Fill all fields'')) s
      else if password form \<noteq> confirm form
      then emit (ToastError (JStr ''Passwords do not match'')) s
      else emit (HttpPost (API backend @ ''/auth/register'')
                   (JObj [(''name'', JStr (name form)),
                          (''email'', JStr (email form)),
                          (''password'', JStr (password form)),
                          (''role'', JStr (role form))]))
             (s\<lparr>submitting := True\<rparr>))"

definition signUp_try :: "jsval \<Rightarrow> app \<Rightarrow> app \<times> js_error option" where
  "signUp_try data s =
     (case get_prop data ''token'' of
        Inl e \<Rightarrow> (s, Some e)
      | Inr t \<Rightarrow>
     (case get_prop data ''user'' of
        Inl e \<Rightarrow> (s, Some e)
      | Inr u \<Rightarrow>
        (emit (Navigate ''/select-role'')
           (emit (ToastSuccess (JStr ''Account created!'')) (setAuth t u s)), None)))"

definition signUp_catch :: "js_error \<Rightarrow> app \<Rightarrow> app" where
  "signUp_catch err s =
     emit (ToastError (js_or (opt_prop (opt_prop (response err) ''data'') ''detail'')
                         (JStr ''Registration failed''))) s"

definition handleSignUp_settled :: "string \<Rightarrow> settled \<Rightarrow> app \<Rightarrow> app" where
  "handleSignUp_settled backend r s =
     (let s1 = (case r of
                  Rejected err \<Rightarrow> signUp_catch err s
                | Resolved data \<Rightarrow>
                    (case signUp_try data s of
                       (s', None) \<Rightarrow> s'
                     | (s', Some err) \<Rightarrow> signUp_catch err s'))
      in token_effect backend (token s) (s1\<lparr>submitting := False\<rparr>))"

text \<open>The \<open>detail\<close> of an error, as both \<open>catch\<close> blocks read it.\<close>

definition detail_of :: "js_error \<Rightarrow> jsval" where
  "detail_of err = opt_prop (opt_prop (response err) ''data'') ''detail''"

section \<open>MapComponent\<close>

text \<open>
  The three icons, and a marker as the parent supplies it. Coordinates are numbers of
  an abstract type \<open>'c\<close>. A \<open>position\<close> that is missing (or null) is \<open>None\<close>;
  \<open>type\<close> and \<open>title\<close> are any values.
\<close>

datatype icon = ngoIcon | donorIcon | defaultIcon

record 'c latlng =
  lat :: 'c
  lng :: 'c

record 'c markerData =
  position :: "'c latlng option"
  type :: jsval
  title :: jsval

text \<open>
  The objects of the mapping library: a marker, with the number of its creation as its
  identity, and a map with its view and the markers added to it, in the order they
  were added.
\<close>

record 'c marker =
  marker_id :: nat
  at :: "'c latlng"
  icon :: icon
  popup :: "string option"

record 'c leaflet =
  view_center :: "'c latlng"
  view_zoom :: 'c
  tiles :: bool
  click_handler :: bool
  layers :: "'c marker list"

text \<open>The calls made on markers, as they happen.\<close>

datatype call = Removed nat | Added nat

text \<open>
  The three refs of the component, the number of markers created so far, and the calls
  so far. \<open>mapRef\<close> says whether the \<open>div\<close> is attached.
\<close>

record 'c component =
  mapRef :: bool
  mapInstanceRef :: "'c leaflet option"
  markersRef :: "'c marker list"
  created :: nat
  calls :: "call list"

record 'c props =
  center :: "'c latlng"
  zoom :: 'c
  markers :: "'c markerData list"
  onClick :: bool

text \<open>The first effect and its cleanup.\<close>

definition init_map :: "'c props \<Rightarrow> 'c component \<Rightarrow> 'c component" where
  "init_map p c =
     (if mapInstanceRef c = None \<and> mapRef c
      then c\<lparr>mapInstanceRef :=
               Some \<lparr>view_center = center p, view_zoom = zoom p, tiles = True,
                     click_handler = onClick p, layers = []\<rparr>\<rparr>
      else c)"

definition cleanup :: "'c component \<Rightarrow> 'c component" where
  "cleanup c = (case mapInstanceRef c of None \<Rightarrow> c | Some m \<Rightarrow> c\<lparr>mapInstanceRef := None\<rparr>)"

text \<open>The second effect: \<open>setView\<close> on the map, when there is one.\<close>

definition update_view :: "'c latlng \<Rightarrow> 'c \<Rightarrow> 'c component \<Rightarrow> 'c component" where
  "update_view ctr z c =
     (case mapInstanceRef c of
        None \<Rightarrow> c
      | Some m \<Rightarrow> c\<lparr>mapInstanceRef := Some (m\<lparr>view_center := ctr, view_zoom := z\<rparr>)\<rparr>)"

text \<open>
  The third effect. \<open>marker.remove()\<close> takes the marker off the map;
  the body of the second \<open>forEach\<close> skips an entry without position, and otherwise
  creates a marker with the icon of its type, adds it to the map, binds the popup when
  there is a title, and pushes it on \<open>markersRef\<close>.
\<close>

definition remove_marker :: "'c marker \<Rightarrow> 'c component \<Rightarrow> 'c component" where
  "remove_marker mk c =
     c\<lparr>mapInstanceRef :=
         map_option (\<lambda>m. m\<lparr>layers := filter (\<lambda>x. marker_id x \<noteq> marker_id mk) (layers m)\<rparr>)
           (mapInstanceRef c),
       calls := calls c @ [Removed (marker_id mk)]\<rparr>"

definition icon_for :: "jsval \<Rightarrow> icon" where
  "icon_for t =
     (if t = JStr ''ngo'' then ngoIcon
      else if t = JStr ''donor'' then donorIcon
      else defaultIcon)"

definition popup_for :: "jsval \<Rightarrow> string option" where
  "popup_for t =
     (if truthy t then Some (''<strong>'' @ to_string t @ ''</strong>'') else None)"

definition add_marker :: "'c markerData \<Rightarrow> 'c component \<Rightarrow> 'c component" where
  "add_marker markerData c =
     (case position markerData of
        None \<Rightarrow> c
      | Some p \<Rightarrow>
          (let mk = \<lparr>marker_id = created c, at = p, icon = icon_for (type markerData),
                     popup = popup_for (title markerData)\<rparr>
           in c\<lparr>mapInstanceRef :=
                   map_option (\<lambda>m. m\<lparr>layers := layers m @ [mk]\<rparr>) (mapInstanceRef c),
                 markersRef := markersRef c @ [mk],
                 created := Suc (created c),
                 calls := calls c @ [Added (created c)]\<rparr>))"

definition update_markers :: "'c markerData list \<Rightarrow> 'c component \<Rightarrow> 'c component" where
  "update_markers ms c =
     (if mapInstanceRef c = None then c
      else fold add_marker ms ((fold remove_marker (markersRef c) c)\<lparr>markersRef := []\<rparr>))"

text \<open>
  The life of a mounted component: the first render runs the three effects in order;
  later a render with new markers runs the third, one with a new centre or zoom the
  second.
\<close>

definition mount_map :: "'c props \<Rightarrow> 'c component" where
  "mount_map p =
     update_markers (markers p)
       (update_view (center p) (zoom p)
          (init_map p \<lparr>mapRef = True, mapInstanceRef = None, markersRef = [],
                       created = 0, calls = []\<rparr>))"

datatype 'c change = NewMarkers "'c markerData list" | NewView "'c latlng" 'c

fun rerender :: "'c change \<Rightarrow> 'c component \<Rightarrow> 'c component" where
  "rerender (NewMarkers ms) c = update_markers ms c"
| "rerender (NewView ctr z) c = update_view ctr z c"

text \<open>What is on the map, and what a marker shows.\<close>

definition rendered :: "'c component \<Rightarrow> 'c marker list" where
  "rendered c = (case mapInstanceRef c of None \<Rightarrow> [] | Some m \<Rightarrow> layers m)"

definition shown :: "'c marker \<Rightarrow> 'c latlng \<times> icon \<times> string option" where
  "shown mk = (at mk, icon mk, popup mk)"

text \<open>What an entry of the list asks for: nothing without a position.\<close>

definition drawn :: "'c markerData \<Rightarrow> ('c latlng \<times> icon \<times> string option) option" where
  "drawn md =
     (case position md of
        None \<Rightarrow> None
      | Some p \<Rightarrow> Some (p, icon_for (type md), popup_for (title md)))"

text \<open>
  The state between renders of a mounted component: there is a map, what is on it is
  what \<open>markersRef\<close> holds, and every marker was created before now.
\<close>

definition linked :: "'c component \<Rightarrow> bool" where
  "linked c =
     (case mapInstanceRef c of
        None \<Rightarrow> False
      | Some m \<Rightarrow> layers m = markersRef c \<and> list_all (\<lambda>mk. marker_id mk < created c) (markersRef c))"

section \<open>Properties of AuthProvider\<close>

lemmas provider_defs =
  mount_def fetchUser_def token_effect_def setAuth_def logout_def
  fetchUser_resolved_def fetchUser_rejected_def emit_def getItem_def

text \<open>The effect touches neither the session nor the storage.\<close>

lemma fetchUser_fields [simp]:
  "user (fetchUser b s) = user s"
  "token (fetchUser b s) = token s"
  "localStorage (fetchUser b s) = localStorage s"
  "submitting (fetchUser b s) = submitting s"
  by (simp_all add: fetchUser_def emit_def)

lemma token_effect_fields [simp]:
  "user (token_effect b p s) = user s"
  "token (token_effect b p s) = token s"
  "localStorage (token_effect b p s) = localStorage s"
  "submitting (token_effect b p s) = submitting s"
  by (simp_all add: token_effect_def)

lemma fetchUser_effects:
  "\<exists>new. effects (fetchUser b s) = effects s @ new \<and> list_all only_token_key new"
  by (simp add: fetchUser_def emit_def only_token_key_def)

lemma token_effect_effects:
  "\<exists>new. effects (token_effect b p s) = effects s @ new \<and> list_all only_token_key new"
  using fetchUser_effects [of b s] by (simp add: token_effect_def)









text \<open>
  C2: when a profile request fails, the \<open>catch\<close> and \<open>finally\<close> blocks remove
  the stored token, set token and user to null and \<open>loading\<close> to false; the only
  effect is the removal of the key, so nothing is shown to the user. A request is in
  flight only for a token that was not null.
\<close>

theorem C2_rejected_profile_clears:
  "step b ProfileRejected s = Some s' \<Longrightarrow>
     localStorage s' token_key = None \<and> token s' = JNull \<and> user s' = JNull \<and>
     loading s' = False \<and>
     effects s' = effects s @ [StorageRemove token_key] \<and>
     filter is_toast (effects s') = filter is_toast (effects s)"
  by (auto simp: provider_defs split: if_splits)

theorem C2_rejected_profile_clears_witness:
  "step ''http://backend'' ProfileRejected (mount ''http://backend'' [token_key \<mapsto> ''t''])
     = Some \<lparr>user = JNull, token = JNull, loading = False, localStorage = Map.empty,
             awaiting = 0, submitting = False,
             effects = [StorageGet token_key,
                        HttpGet ''http://backend/api/auth/me'' [(''Authorization'', ''Bearer t'')],
                        StorageRemove token_key]\<rparr>"
proof -
  let ?s0 = "mount ''http://backend'' [token_key \<mapsto> ''t'']"
  obtain s' where r: "step ''http://backend'' ProfileRejected ?s0 = Some s'"
    by (simp add: provider_defs)
  from C2_rejected_profile_clears [OF r]
  have "localStorage s' token_key = None" "token s' = JNull" "user s' = JNull" "loading s' = False"
    by simp_all
  with r show ?thesis
    by (auto simp: provider_defs API_def split: if_splits)
qed

text \<open>
  C3, as stated, fails at \<open>setAuth(null, null)\<close>: the token in memory is null, and
  the key is present, holding the text \<open>null\<close>.
\<close>

theorem C3_null_token_stored_as_text:
  "map_option mirrored
     (run ''http://backend'' [SetAuth JNull JNull] (mount ''http://backend'' nothing_stored))
   = Some False"
  by (simp add: provider_defs mirrored_def nothing_stored_def)

lemma step_effects:
  "step b a s = Some s' \<Longrightarrow>
   \<exists>new. effects s' = effects s @ new \<and> list_all only_token_key new"
proof (cases a)
  case (SetAuth t u)
  assume "step b a s = Some s'"
  with SetAuth have s': "s' = token_effect b (token s) (setAuth t u s)" by simp
  obtain new where "effects s' = effects (setAuth t u s) @ new" "list_all only_token_key new"
    using token_effect_effects [of b "token s" "setAuth t u s"] s' by auto
  then show ?thesis by (simp add: setAuth_def emit_def only_token_key_def)
next
  case Logout
  assume "step b a s = Some s'"
  with Logout have s': "s' = token_effect b (token s) (logout s)" by simp
  obtain new where "effects s' = effects (logout s) @ new" "list_all only_token_key new"
    using token_effect_effects [of b "token s" "logout s"] s' by auto
  then show ?thesis by (simp add: logout_def emit_def only_token_key_def)
next
  case (ProfileResolved d)
  assume "step b a s = Some s'"
  with ProfileResolved
  have s': "s' = token_effect b (token s) (fetchUser_resolved d (s\<lparr>awaiting := awaiting s - 1\<rparr>))"
    by (simp split: if_splits)
  then show ?thesis
    using token_effect_effects [of b "token s" "fetchUser_resolved d (s\<lparr>awaiting := awaiting s - 1\<rparr>)"]
    by (simp add: fetchUser_resolved_def)
next
  case ProfileRejected
  assume "step b a s = Some s'"
  with ProfileRejected
  have s': "s' = token_effect b (token s) (fetchUser_rejected (s\<lparr>awaiting := awaiting s - 1\<rparr>))"
    by (simp split: if_splits)
  obtain new where "effects s' = effects (fetchUser_rejected (s\<lparr>awaiting := awaiting s - 1\<rparr>)) @ new"
      "list_all only_token_key new"
    using token_effect_effects [of b "token s" "fetchUser_rejected (s\<lparr>awaiting := awaiting s - 1\<rparr>)"] s'
    by auto
  then show ?thesis by (simp add: fetchUser_rejected_def emit_def only_token_key_def)
qed

lemma step_other_keys:
  "step b a s = Some s' \<Longrightarrow> k \<noteq> token_key \<Longrightarrow> localStorage s' k = localStorage s k"
  by (cases a) (auto simp: setAuth_def logout_def fetchUser_resolved_def fetchUser_rejected_def
      emit_def split: if_splits)

lemma step_mirrored:
  "step b a s = Some s' \<Longrightarrow> rewrites_token a \<Longrightarrow> mirrored s'"
  by (cases a) (auto simp: mirrored_def getItem_def setAuth_def logout_def fetchUser_rejected_def
      emit_def split: if_splits jsval.splits)

text \<open>
  C3, amended: after the initial load, after \<open>setAuth\<close> with a string token, after
  \<open>logout\<close> and after a failed profile request, reading the key gives the token in
  memory (the key is absent exactly when the token is null); no step changes another
  key, and every storage call names this key.
\<close>

theorem C3_storage_mirrors_token:
  "mirrored (mount b store)
   \<and> localStorage (mount b store) = store
   \<and> list_all only_token_key (effects (mount b store))
   \<and> (step b a s = Some s' \<longrightarrow>
        (rewrites_token a \<longrightarrow> mirrored s')
        \<and> (\<forall>k. k \<noteq> token_key \<longrightarrow> localStorage s' k = localStorage s k)
        \<and> (\<exists>new. effects s' = effects s @ new \<and> list_all only_token_key new))"
proof -
  have "mirrored (mount b store)"
    by (simp add: mirrored_def mount_def)
  moreover have "localStorage (mount b store) = store"
    by (simp add: mount_def)
  moreover have "list_all only_token_key (effects (mount b store))"
    by (simp add: mount_def fetchUser_def emit_def only_token_key_def)
  ultimately show ?thesis
    using step_mirrored step_other_keys step_effects by blast
qed


theorem C3_storage_mirrors_token_witness:
  "step ''http://backend'' (SetAuth (JStr ''t'') JNull)
       (mount ''http://backend'' [''theme'' \<mapsto> ''dark'']) \<noteq> None
   \<and> rewrites_token (SetAuth (JStr ''t'') JNull)
   \<and> ''theme'' \<noteq> token_key
   \<and> map_option mirrored
         (step ''http://backend'' (SetAuth (JStr ''t'') JNull)
            (mount ''http://backend'' [''theme'' \<mapsto> ''dark''])) = Some True
   \<and> map_option (\<lambda>s. localStorage s ''theme'')
         (step ''http://backend'' (SetAuth (JStr ''t'') JNull)
            (mount ''http://backend'' [''theme'' \<mapsto> ''dark''])) = Some (Some ''dark'')"
proof -
  let ?b = "''http://backend''"
  let ?a = "SetAuth (JStr ''t'') JNull"
  let ?s0 = "mount ?b [''theme'' \<mapsto> ''dark'']"
  obtain s' where r: "step ?b ?a ?s0 = Some s'"
    by simp
  have k: "''theme'' \<noteq> token_key"
    by (simp add: token_key_def)
  have w: "rewrites_token ?a"
    by simp
  from C3_storage_mirrors_token [of ?b "[''theme'' \<mapsto> ''dark'']" ?a ?s0 s'] r w k
  have "mirrored s'" and "localStorage s' ''theme'' = localStorage ?s0 ''theme''"
    by simp_all
  moreover have "localStorage ?s0 ''theme'' = Some ''dark''"
    by (simp add: mount_def)
  ultimately show ?thesis using r k w by simp
qed

text \<open>
  C7, as stated, fails for the empty string: \<open>setAuth('', user)\<close> changes the token
  from null to a value that is not null, and \<open>if (!token)\<close> returns before any
  request is sent.
\<close>

theorem C7_empty_token_no_request:
  "token (mount ''http://backend'' nothing_stored) = JNull
   \<and> map_option token
        (step ''http://backend'' (SetAuth (JStr []) (JObj []))
           (mount ''http://backend'' nothing_stored))
       = Some (JStr [])
   \<and> JStr [] \<noteq> JNull
   \<and> map_option requests
        (step ''http://backend'' (SetAuth (JStr []) (JObj []))
           (mount ''http://backend'' nothing_stored))
       = Some []"
  by (simp add: provider_defs requests_def nothing_stored_def)

text \<open>
  C7, amended: when \<open>setAuth\<close> changes the token to a value that is not empty
  (one that \<open>!token\<close> does not reject), and when the provider starts with a
  non-empty stored token, exactly one request \<open>GET /api/auth/me\<close> is sent, with the
  header \<open>Authorization: Bearer <token>\<close>; when a request is answered with a body,
  the user becomes that body, the token and the storage stay as they are,
  \<open>loading\<close> becomes false, and nothing else is done.
\<close>

theorem C7_one_request_per_token:
  "(truthy t \<and> t \<noteq> token s \<longrightarrow>
      (\<exists>s1. step b (SetAuth t u) s = Some s1
         \<and> token s1 = t
         \<and> effects s1 = effects s @
             [StorageSet token_key (to_string t),
              HttpGet (API b @ ''/auth/me'') [(''Authorization'', ''Bearer '' @ to_string t)]]
         \<and> awaiting s1 = Suc (awaiting s)))
   \<and> (store token_key = Some tok \<and> tok \<noteq> [] \<longrightarrow>
        token (mount b store) = JStr tok
        \<and> effects (mount b store) =
             [StorageGet token_key,
              HttpGet (API b @ ''/auth/me'') [(''Authorization'', ''Bearer '' @ tok)]]
        \<and> awaiting (mount b store) = 1)
   \<and> (0 < awaiting s \<longrightarrow>
        (\<exists>s2. step b (ProfileResolved d) s = Some s2
           \<and> user s2 = d \<and> token s2 = token s \<and> localStorage s2 = localStorage s
           \<and> loading s2 = False \<and> effects s2 = effects s))"
  by (auto simp: provider_defs split: if_splits)

theorem C7_one_request_per_token_witness:
  "(truthy (JStr ''t'') \<and> JStr ''t'' \<noteq> token (mount ''http://backend'' [token_key \<mapsto> ''old'']))
   \<and> (\<exists>s1. step ''http://backend'' (SetAuth (JStr ''t'') (JObj []))
               (mount ''http://backend'' [token_key \<mapsto> ''old'']) = Some s1
         \<and> token s1 = JStr ''t''
         \<and> effects s1 = effects (mount ''http://backend'' [token_key \<mapsto> ''old'']) @
             [StorageSet token_key (to_string (JStr ''t'')),
              HttpGet (API ''http://backend'' @ ''/auth/me'')
                [(''Authorization'', ''Bearer '' @ to_string (JStr ''t''))]]
         \<and> awaiting s1 = Suc (awaiting (mount ''http://backend'' [token_key \<mapsto> ''old''])))
   \<and> ([token_key \<mapsto> ''old''] token_key = Some ''old'' \<and> ''old'' \<noteq> [])
   \<and> effects (mount ''http://backend'' [token_key \<mapsto> ''old'']) =
        [StorageGet token_key,
         HttpGet (API ''http://backend'' @ ''/auth/me'') [(''Authorization'', ''Bearer '' @ ''old'')]]
   \<and> 0 < awaiting (mount ''http://backend'' [token_key \<mapsto> ''old''])
   \<and> (\<exists>s2. step ''http://backend'' (ProfileResolved (JObj [(''role'', JStr ''ngo'')]))
               (mount ''http://backend'' [token_key \<mapsto> ''old'']) = Some s2
         \<and> user s2 = JObj [(''role'', JStr ''ngo'')]
         \<and> token s2 = token (mount ''http://backend'' [token_key \<mapsto> ''old''])
         \<and> loading s2 = False)"
proof -
  let ?b = "''http://backend''"
  let ?st = "[token_key \<mapsto> ''old'']"
  let ?s = "mount ?b ?st"
  have h1: "truthy (JStr ''t'') \<and> JStr ''t'' \<noteq> token ?s"
    by (simp add: provider_defs)
  have h2: "?st token_key = Some ''old'' \<and> ''old'' \<noteq> []"
    by simp
  have h3: "0 < awaiting ?s"
    by (simp add: provider_defs)
  note inst = C7_one_request_per_token
    [where t = "JStr ''t''" and s = ?s and b = ?b and u = "JObj []"
       and store = ?st and tok = "''old''" and d = "JObj [(''role'', JStr ''ngo'')]"]
  from inst h1 h2 h3 show ?thesis
    by blast
qed

text \<open>
  C10: with a null token \<open>fetchUser\<close> only sets \<open>loading\<close> to false; a provider
  started without a stored token is signed out and not loading, and has sent no
  request.
\<close>

theorem C10_no_token_no_request:
  "(token s = JNull \<longrightarrow> fetchUser b s = s\<lparr>loading := False\<rparr>)
   \<and> (store token_key = None \<longrightarrow>
        mount b store =
          \<lparr>user = JNull, token = JNull, loading = False, localStorage = store,
           awaiting = 0, submitting = False, effects = [StorageGet token_key]\<rparr>
        \<and> requests (mount b store) = [])"
  by (simp add: provider_defs requests_def)

theorem C10_no_token_no_request_witness:
  "token (mount ''http://backend'' [''theme'' \<mapsto> ''dark'']) = JNull
   \<and> fetchUser ''http://backend'' (mount ''http://backend'' [''theme'' \<mapsto> ''dark''])
       = (mount ''http://backend'' [''theme'' \<mapsto> ''dark''])\<lparr>loading := False\<rparr>
   \<and> [''theme'' \<mapsto> ''dark''] token_key = None
   \<and> mount ''http://backend'' [''theme'' \<mapsto> ''dark''] =
          \<lparr>user = JNull, token = JNull, loading = False,
           localStorage = [''theme'' \<mapsto> ''dark''],
           awaiting = 0, submitting = False, effects = [StorageGet token_key]\<rparr>
   \<and> requests (mount ''http://backend'' [''theme'' \<mapsto> ''dark'']) = []"
proof -
  let ?b = "''http://backend''"
  let ?st = "[''theme'' \<mapsto> ''dark'']"
  let ?s = "mount ?b ?st"
  have h1: "token ?s = JNull"
    by (simp add: provider_defs token_key_def)
  have h2: "?st token_key = None"
    by (simp add: token_key_def)
  from C10_no_token_no_request [where s = ?s and b = ?b and store = ?st] h1 h2
  show ?thesis
    by blast
qed


section \<open>Properties of the Auth page\<close>

lemmas page_defs =
  handleSignIn_def handleSignIn_settled_def signIn_try_def signIn_catch_def
  handleSignUp_def handleSignUp_settled_def signUp_try_def signUp_catch_def

lemma token_effect_navigations [simp]:
  "navigations (token_effect b p s) = navigations s"
  by (simp add: navigations_def token_effect_def fetchUser_def emit_def)

text \<open>
  C4: when the login or the registration request is rejected, the handler shows one
  error toast and changes nothing of the session: the toast carries the \<open>detail\<close>
  of the response when there is one (a value that \<open>||\<close> does not pass over), and
  \<open>Login failed\<close> or \<open>Registration failed\<close> otherwise; token, user and storage
  are as before.
\<close>

theorem C4_failed_request_notifies:
  "handleSignIn_settled b (Rejected err) s =
     s\<lparr>effects := effects s @
          [ToastError (if truthy (detail_of err) then detail_of err else JStr ''Login failed'')],
       submitting := False\<rparr>
   \<and> handleSignUp_settled b (Rejected err) s =
     s\<lparr>effects := effects s @
          [ToastError (if truthy (detail_of err) then detail_of err
                       else JStr ''Registration failed'')],
       submitting := False\<rparr>
   \<and> token (handleSignIn_settled b (Rejected err) s) = token s
   \<and> user (handleSignIn_settled b (Rejected err) s) = user s
   \<and> localStorage (handleSignIn_settled b (Rejected err) s) = localStorage s
   \<and> token (handleSignUp_settled b (Rejected err) s) = token s
   \<and> user (handleSignUp_settled b (Rejected err) s) = user s
   \<and> localStorage (handleSignUp_settled b (Rejected err) s) = localStorage s"
  by (simp add: page_defs detail_of_def js_or_def token_effect_def emit_def)

theorem C4_failed_request_notifies_witness:
  "effects (handleSignIn_settled ''http://backend''
      (Rejected (AxiosError (JObj [(''data'', JObj [(''detail'', JStr ''Invalid credentials'')])])))
      (mount ''http://backend'' Map.empty))
     = [StorageGet token_key, ToastError (JStr ''Invalid credentials'')]
   \<and> effects (handleSignUp_settled ''http://backend'' (Rejected (AxiosError JUndefined))
      (mount ''http://backend'' Map.empty))
     = [StorageGet token_key, ToastError (JStr ''Registration failed'')]"
proof -
  let ?e = "AxiosError (JObj [(''data'', JObj [(''detail'', JStr ''Invalid credentials'')])])"
  let ?n = "AxiosError JUndefined"
  let ?s = "mount ''http://backend'' Map.empty"
  have d: "detail_of ?e = JStr ''Invalid credentials''" "detail_of ?n = JUndefined"
    by (simp_all add: detail_of_def opt_prop_def)
  have s: "effects ?s = [StorageGet token_key]"
    by (simp add: provider_defs)
  from C4_failed_request_notifies [where err = ?e and s = ?s and b = "''http://backend''"]
  have "handleSignIn_settled ''http://backend'' (Rejected ?e) ?s =
     ?s\<lparr>effects := effects ?s @
          [ToastError (if truthy (detail_of ?e) then detail_of ?e else JStr ''Login failed'')],
       submitting := False\<rparr>"
    by blast
  then have a: "effects (handleSignIn_settled ''http://backend'' (Rejected ?e) ?s) =
     effects ?s @ [ToastError (if truthy (detail_of ?e) then detail_of ?e else JStr ''Login failed'')]"
    by simp
  from C4_failed_request_notifies [where err = ?n and s = ?s and b = "''http://backend''"]
  have "handleSignUp_settled ''http://backend'' (Rejected ?n) ?s =
     ?s\<lparr>effects := effects ?s @
          [ToastError (if truthy (detail_of ?n) then detail_of ?n
                       else JStr ''Registration failed'')],
       submitting := False\<rparr>"
    by blast
  then have b: "effects (handleSignUp_settled ''http://backend'' (Rejected ?n) ?s) =
     effects ?s @ [ToastError (if truthy (detail_of ?n) then detail_of ?n
                       else JStr ''Registration failed'')]"
    by simp
  from a b d s show ?thesis
    by simp
qed

text \<open>
  C5: \<open>handleSignIn\<close> with an empty email or password, and \<open>handleSignUp\<close> with
  an empty name, email or password or with a password that differs from its
  confirmation, only add an error toast: no request is sent, and the session and the
  storage are untouched.
\<close>

theorem C5_validation_gates_requests:
  "(email f = [] \<or> password f = [] \<longrightarrow>
      handleSignIn b f s = s\<lparr>effects := effects s @ [ToastError (JStr ''Fill all fields'')]\<rparr>
      \<and> requests (handleSignIn b f s) = requests s)
   \<and> (name g = [] \<or> email g = [] \<or> password g = [] \<longrightarrow>
      handleSignUp b g s = s\<lparr>effects := effects s @ [ToastError (JStr ''Fill all fields'')]\<rparr>
      \<and> requests (handleSignUp b g s) = requests s)
   \<and> (password g \<noteq> confirm g \<longrightarrow>
      handleSignUp b g s =
        s\<lparr>effects := effects s @
             [ToastError (JStr (if name g = [] \<or> email g = [] \<or> password g = []
                                then ''Fill all fields'' else ''Passwords do not match''))]\<rparr>
      \<and> requests (handleSignUp b g s) = requests s)"
  by (simp add: page_defs emit_def requests_def)

theorem C5_validation_gates_requests_witness:
  "(email \<lparr>email = ''a@b.org'', password = []\<rparr> = []
      \<or> password \<lparr>email = ''a@b.org'', password = []\<rparr> = [])
   \<and> handleSignIn ''http://backend'' \<lparr>email = ''a@b.org'', password = []\<rparr>
        (mount ''http://backend'' token_stored)
      = (mount ''http://backend'' token_stored)
          \<lparr>effects := effects (mount ''http://backend'' token_stored) @
                        [ToastError (JStr ''Fill all fields'')]\<rparr>
   \<and> (name \<lparr>email = ''a@b.org'', password = ''pw'', name = [], confirm = ''pw'',
              role = ''donor''\<rparr> = []
      \<or> email \<lparr>email = ''a@b.org'', password = ''pw'', name = [], confirm = ''pw'',
              role = ''donor''\<rparr> = []
      \<or> password \<lparr>email = ''a@b.org'', password = ''pw'', name = [], confirm = ''pw'',
              role = ''donor''\<rparr> = [])
   \<and> requests (handleSignUp ''http://backend''
                  \<lparr>email = ''a@b.org'', password = ''pw'', name = [], confirm = ''pw'',
                   role = ''donor''\<rparr>
                  (mount ''http://backend'' token_stored))
      = requests (mount ''http://backend'' token_stored)
   \<and> password \<lparr>email = ''a@b.org'', password = ''pw'', name = ''Asha'', confirm = ''pv'',
                 role = ''donor''\<rparr>
       \<noteq> confirm \<lparr>email = ''a@b.org'', password = ''pw'', name = ''Asha'', confirm = ''pv'',
                    role = ''donor''\<rparr>
   \<and> requests (handleSignUp ''http://backend''
                  \<lparr>email = ''a@b.org'', password = ''pw'', name = ''Asha'', confirm = ''pv'',
                   role = ''donor''\<rparr>
                  (mount ''http://backend'' token_stored))
      = requests (mount ''http://backend'' token_stored)"
proof -
  let ?f = "\<lparr>email = ''a@b.org'', password = []\<rparr>"
  let ?e = "\<lparr>email = ''a@b.org'', password = ''pw'', name = [], confirm = ''pw'',
             role = ''donor''\<rparr>"
  let ?g = "\<lparr>email = ''a@b.org'', password = ''pw'', name = ''Asha'', confirm = ''pv'',
             role = ''donor''\<rparr>"
  let ?s = "mount ''http://backend'' token_stored"
  have h1: "email ?f = [] \<or> password ?f = []"
    by simp
  have h2: "name ?e = [] \<or> email ?e = [] \<or> password ?e = []"
    by simp
  have h3: "password ?g \<noteq> confirm ?g"
    by simp
  from C5_validation_gates_requests [where f = ?f and g = ?e and s = ?s and b = "''http://backend''"]
    C5_validation_gates_requests [where f = ?f and g = ?g and s = ?s and b = "''http://backend''"]
    h1 h2 h3
  show ?thesis
    by blast
qed

text \<open>
  C6: a sign-up that passes the checks sends one \<open>POST /api/auth/register\<close> whose
  body has exactly the fields \<open>name\<close>, \<open>email\<close>, \<open>password\<close> and \<open>role\<close>
  of the form, and not \<open>confirm\<close>.
\<close>

theorem C6_register_body:
  "name g \<noteq> [] \<and> email g \<noteq> [] \<and> password g \<noteq> [] \<and> password g = confirm g \<longrightarrow>
     handleSignUp b g s =
       s\<lparr>effects := effects s @
            [HttpPost (API b @ ''/auth/register'')
               (JObj [(''name'', JStr (name g)), (''email'', JStr (email g)),
                      (''password'', JStr (password g)), (''role'', JStr (role g))])],
         submitting := True\<rparr>"
  by (simp add: page_defs emit_def)

theorem C6_register_body_witness:
  "(name \<lparr>email = ''a@b.org'', password = ''pw'', name = ''Asha'', confirm = ''pw'',
          role = ''ngo''\<rparr> \<noteq> []
    \<and> email \<lparr>email = ''a@b.org'', password = ''pw'', name = ''Asha'', confirm = ''pw'',
          role = ''ngo''\<rparr> \<noteq> []
    \<and> password \<lparr>email = ''a@b.org'', password = ''pw'', name = ''Asha'', confirm = ''pw'',
          role = ''ngo''\<rparr> \<noteq> []
    \<and> password \<lparr>email = ''a@b.org'', password = ''pw'', name = ''Asha'', confirm = ''pw'',
          role = ''ngo''\<rparr>
      = confirm \<lparr>email = ''a@b.org'', password = ''pw'', name = ''Asha'', confirm = ''pw'',
          role = ''ngo''\<rparr>)
   \<and> effects (handleSignUp ''http://backend''
        \<lparr>email = ''a@b.org'', password = ''pw'', name = ''Asha'', confirm = ''pw'',
         role = ''ngo''\<rparr> (mount ''http://backend'' Map.empty))
     = [StorageGet token_key,
        HttpPost ''http://backend/api/auth/register''
          (JObj [(''name'', JStr ''Asha''), (''email'', JStr ''a@b.org''),
                 (''password'', JStr ''pw''), (''role'', JStr ''ngo'')])]"
proof -
  let ?g = "\<lparr>email = ''a@b.org'', password = ''pw'', name = ''Asha'', confirm = ''pw'',
             role = ''ngo''\<rparr>"
  let ?s = "mount ''http://backend'' Map.empty"
  have h: "name ?g \<noteq> [] \<and> email ?g \<noteq> [] \<and> password ?g \<noteq> [] \<and> password ?g = confirm ?g"
    by simp
  from C6_register_body [where g = ?g and s = ?s and b = "''http://backend''"] h
  have "handleSignUp ''http://backend'' ?g ?s =
       ?s\<lparr>effects := effects ?s @
            [HttpPost (API ''http://backend'' @ ''/auth/register'')
               (JObj [(''name'', JStr (name ?g)), (''email'', JStr (email ?g)),
                      (''password'', JStr (password ?g)), (''role'', JStr (role ?g))])],
         submitting := True\<rparr>"
    by blast
  then have "effects (handleSignUp ''http://backend'' ?g ?s) = effects ?s @
            [HttpPost (API ''http://backend'' @ ''/auth/register'')
               (JObj [(''name'', JStr (name ?g)), (''email'', JStr (email ?g)),
                      (''password'', JStr (password ?g)), (''role'', JStr (role ?g))])]"
    by simp
  moreover have "effects ?s = [StorageGet token_key]"
    by (simp add: provider_defs)
  ultimately have "effects (handleSignUp ''http://backend'' ?g ?s) =
        [StorageGet token_key,
        HttpPost ''http://backend/api/auth/register''
          (JObj [(''name'', JStr ''Asha''), (''email'', JStr ''a@b.org''),
                 (''password'', JStr ''pw''), (''role'', JStr ''ngo'')])]"
    by (simp add: API_def)
  with h show ?thesis
    by blast
qed

text \<open>
  C8: when the login request succeeds with a body that has a token and a user, the
  session is set by \<open>setAuth\<close> from them and the page navigates to
  \<open>/<user.role>-dashboard\<close>; when the registration request succeeds, the session is
  set by \<open>setAuth\<close> and the page navigates to \<open>/select-role\<close>. The readings
  \<open>res.data.token\<close>, \<open>res.data.user\<close> and \<open>res.data.user.role\<close> are
  assumed not to throw: the body and, for the login, its user are not null or undefined.
\<close>

theorem C8_success_sets_session_and_navigates:
  "(get_prop d ''token'' = Inr t \<and> get_prop d ''user'' = Inr u \<and> get_prop u ''role'' = Inr r \<longrightarrow>
      handleSignIn_settled b (Resolved d) s =
        token_effect b (token s)
          ((emit (Navigate (''/'' @ to_string r @ ''-dashboard''))
              (emit (ToastSuccess (JStr ''Welcome back!'')) (setAuth t u s)))
             \<lparr>submitting := False\<rparr>)
      \<and> token (handleSignIn_settled b (Resolved d) s) = t
      \<and> user (handleSignIn_settled b (Resolved d) s) = u
      \<and> navigations (handleSignIn_settled b (Resolved d) s) =
          navigations s @ [Navigate (''/'' @ to_string r @ ''-dashboard'')])
   \<and> (get_prop d ''token'' = Inr t \<and> get_prop d ''user'' = Inr u \<longrightarrow>
      handleSignUp_settled b (Resolved d) s =
        token_effect b (token s)
          ((emit (Navigate ''/select-role'')
              (emit (ToastSuccess (JStr ''Account created!'')) (setAuth t u s)))
             \<lparr>submitting := False\<rparr>)
      \<and> token (handleSignUp_settled b (Resolved d) s) = t
      \<and> user (handleSignUp_settled b (Resolved d) s) = u
      \<and> navigations (handleSignUp_settled b (Resolved d) s) =
          navigations s @ [Navigate ''/select-role''])"
  by (simp add: page_defs) (simp add: navigations_def setAuth_def emit_def)

theorem C8_success_sets_session_and_navigates_witness:
  "(get_prop (JObj [(''token'', JStr ''T''), (''user'', JObj [(''role'', JStr ''ngo'')])]) ''token''
      = Inr (JStr ''T'')
    \<and> get_prop (JObj [(''token'', JStr ''T''), (''user'', JObj [(''role'', JStr ''ngo'')])]) ''user''
      = Inr (JObj [(''role'', JStr ''ngo'')])
    \<and> get_prop (JObj [(''role'', JStr ''ngo'')]) ''role'' = Inr (JStr ''ngo''))
   \<and> token (handleSignIn_settled ''http://backend''
        (Resolved (JObj [(''token'', JStr ''T''), (''user'', JObj [(''role'', JStr ''ngo'')])]))
        (mount ''http://backend'' Map.empty)) = JStr ''T''
   \<and> user (handleSignIn_settled ''http://backend''
        (Resolved (JObj [(''token'', JStr ''T''), (''user'', JObj [(''role'', JStr ''ngo'')])]))
        (mount ''http://backend'' Map.empty)) = JObj [(''role'', JStr ''ngo'')]
   \<and> navigations (handleSignIn_settled ''http://backend''
        (Resolved (JObj [(''token'', JStr ''T''), (''user'', JObj [(''role'', JStr ''ngo'')])]))
        (mount ''http://backend'' Map.empty)) = [Navigate ''/ngo-dashboard'']
   \<and> navigations (handleSignUp_settled ''http://backend''
        (Resolved (JObj [(''token'', JStr ''T''), (''user'', JObj [(''role'', JStr ''ngo'')])]))
        (mount ''http://backend'' Map.empty)) = [Navigate ''/select-role'']"
proof -
  let ?u = "JObj [(''role'', JStr ''ngo'')]"
  let ?d = "JObj [(''token'', JStr ''T''), (''user'', ?u)]"
  let ?s = "mount ''http://backend'' Map.empty"
  have h: "get_prop ?d ''token'' = Inr (JStr ''T'') \<and> get_prop ?d ''user'' = Inr ?u
           \<and> get_prop ?u ''role'' = Inr (JStr ''ngo'')"
    by simp
  note inst = C8_success_sets_session_and_navigates
    [where d = ?d and t = "JStr ''T''" and u = ?u and r = "JStr ''ngo''" and s = ?s
       and b = "''http://backend''"]
  from inst h have
    "token (handleSignIn_settled ''http://backend'' (Resolved ?d) ?s) = JStr ''T''"
    "user (handleSignIn_settled ''http://backend'' (Resolved ?d) ?s) = ?u"
    "navigations (handleSignIn_settled ''http://backend'' (Resolved ?d) ?s)
       = navigations ?s @ [Navigate (''/'' @ to_string (JStr ''ngo'') @ ''-dashboard'')]"
    "navigations (handleSignUp_settled ''http://backend'' (Resolved ?d) ?s)
       = navigations ?s @ [Navigate ''/select-role'']"
    by blast+
  moreover have "navigations ?s = []"
    by (simp add: navigations_def provider_defs)
  ultimately show ?thesis
    using h by simp
qed

section \<open>Properties of MapComponent\<close>

lemma remove_marker_fields [simp]:
  "markersRef (remove_marker k c) = markersRef c"
  "created (remove_marker k c) = created c"
  "mapRef (remove_marker k c) = mapRef c"
  "calls (remove_marker k c) = calls c @ [Removed (marker_id k)]"
  by (simp_all add: remove_marker_def)

lemma fold_remove_marker_fields [simp]:
  "markersRef (fold remove_marker ks c) = markersRef c"
  "created (fold remove_marker ks c) = created c"
  "calls (fold remove_marker ks c) = calls c @ map Removed (map marker_id ks)"
  by (induction ks arbitrary: c) simp_all

lemma fold_remove_marker_map:
  "mapInstanceRef c = Some m \<Longrightarrow>
   mapInstanceRef (fold remove_marker ks c) =
     Some (m\<lparr>layers := filter (\<lambda>x. marker_id x \<notin> marker_id ` set ks) (layers m)\<rparr>)"
proof (induction ks arbitrary: c m)
  case Nil
  then show ?case by simp
next
  case (Cons k ks)
  have "mapInstanceRef (remove_marker k c) =
          Some (m\<lparr>layers := filter (\<lambda>x. marker_id x \<noteq> marker_id k) (layers m)\<rparr>)"
    using Cons.prems by (simp add: remove_marker_def)
  from Cons.IH [OF this] show ?case
    by (simp add: conj_commute)
qed

lemma fold_add_marker:
  "mapInstanceRef c = Some m \<Longrightarrow>
   \<exists>new. mapInstanceRef (fold add_marker ms c) = Some (m\<lparr>layers := layers m @ new\<rparr>)
       \<and> markersRef (fold add_marker ms c) = markersRef c @ new
       \<and> calls (fold add_marker ms c) = calls c @ map Added (map marker_id new)
       \<and> created (fold add_marker ms c) = created c + length new
       \<and> (\<forall>mk \<in> set new. created c \<le> marker_id mk \<and> marker_id mk < created c + length new)
       \<and> map shown new = List.map_filter drawn ms"
proof (induction ms arbitrary: c m)
  case Nil
  then show ?case by (simp add: List.map_filter_simps)
next
  case (Cons md ms)
  show ?case
  proof (cases "position md")
    case None
    then have "add_marker md c = c" "drawn md = None"
      by (simp_all add: add_marker_def drawn_def)
    with Cons.IH [OF Cons.prems] show ?thesis
      by (simp add: List.map_filter_simps)
  next
    case (Some p)
    let ?mk = "\<lparr>marker_id = created c, at = p, icon = icon_for (type md),
                popup = popup_for (title md)\<rparr>"
    let ?c = "add_marker md c"
    have c: "mapInstanceRef ?c = Some (m\<lparr>layers := layers m @ [?mk]\<rparr>)"
      "markersRef ?c = markersRef c @ [?mk]" "calls ?c = calls c @ [Added (created c)]"
      "created ?c = Suc (created c)"
      using Some Cons.prems by (simp_all add: add_marker_def Let_def)
    define m' where "m' = m\<lparr>layers := layers m @ [?mk]\<rparr>"
    have c1: "mapInstanceRef ?c = Some m'"
      using c(1) by (simp add: m'_def)
    from Cons.IH [OF c1] obtain new where new:
      "mapInstanceRef (fold add_marker ms ?c) = Some (m'\<lparr>layers := layers m' @ new\<rparr>)"
      "markersRef (fold add_marker ms ?c) = markersRef ?c @ new"
      "calls (fold add_marker ms ?c) = calls ?c @ map Added (map marker_id new)"
      "created (fold add_marker ms ?c) = created ?c + length new"
      "\<forall>mk \<in> set new. created ?c \<le> marker_id mk \<and> marker_id mk < created ?c + length new"
      "map shown new = List.map_filter drawn ms"
      by blast
    have d: "drawn md = Some (shown ?mk)"
      using Some by (simp add: drawn_def shown_def)
    have "\<forall>x \<in> set (?mk # new). created c \<le> marker_id x \<and>
            marker_id x < created c + length (?mk # new)"
      using new(5) c(4) by auto
    with new c d show ?thesis
      by (intro exI [of _ "?mk # new"]) (simp add: List.map_filter_simps m'_def)
  qed
qed


lemma update_markers_linked:
  "linked c \<Longrightarrow>
   \<exists>new. rendered c = markersRef c
       \<and> mapInstanceRef (update_markers ms c) \<noteq> None
       \<and> rendered (update_markers ms c) = new
       \<and> markersRef (update_markers ms c) = new
       \<and> calls (update_markers ms c) =
            calls c @ map Removed (map marker_id (markersRef c)) @ map Added (map marker_id new)
       \<and> created (update_markers ms c) = created c + length new
       \<and> (\<forall>mk \<in> set new. created c \<le> marker_id mk \<and> marker_id mk < created c + length new)
       \<and> map shown new = List.map_filter drawn ms"
proof -
  assume "linked c"
  then obtain m where m: "mapInstanceRef c = Some m" "layers m = markersRef c"
    by (auto simp: linked_def split: option.splits)
  let ?c = "(fold remove_marker (markersRef c) c)\<lparr>markersRef := []\<rparr>"
  have c: "mapInstanceRef ?c = Some (m\<lparr>layers := []\<rparr>)"
    using fold_remove_marker_map [OF m(1), of "markersRef c"] m(2) by simp
  have u: "update_markers ms c = fold add_marker ms ?c"
    using m(1) by (simp add: update_markers_def)
  have r: "rendered c = markersRef c"
    using m by (simp add: rendered_def)
  define m' where "m' = m\<lparr>layers := []\<rparr>"
  have c': "mapInstanceRef ?c = Some m'"
    using c by (simp add: m'_def)
  from fold_add_marker [OF c', of ms] obtain new where
    "mapInstanceRef (fold add_marker ms ?c) = Some (m'\<lparr>layers := layers m' @ new\<rparr>)"
    "markersRef (fold add_marker ms ?c) = markersRef ?c @ new"
    "calls (fold add_marker ms ?c) = calls ?c @ map Added (map marker_id new)"
    "created (fold add_marker ms ?c) = created ?c + length new"
    "\<forall>mk \<in> set new. created ?c \<le> marker_id mk \<and> marker_id mk < created ?c + length new"
    "map shown new = List.map_filter drawn ms"
    by blast
  then have
    "mapInstanceRef (update_markers ms c) \<noteq> None"
    "rendered (update_markers ms c) = new"
    "markersRef (update_markers ms c) = new"
    "calls (update_markers ms c) =
       calls c @ map Removed (map marker_id (markersRef c)) @ map Added (map marker_id new)"
    "created (update_markers ms c) = created c + length new"
    "\<forall>mk \<in> set new. created c \<le> marker_id mk \<and> marker_id mk < created c + length new"
    "map shown new = List.map_filter drawn ms"
    unfolding u by (simp_all add: rendered_def m'_def)
  with r show ?thesis
    by blast
qed

lemma update_markers_keeps_linked: "linked c \<Longrightarrow> linked (update_markers ms c)"
proof -
  assume l: "linked c"
  from update_markers_linked [OF l, of ms] obtain new where new:
    "mapInstanceRef (update_markers ms c) \<noteq> None"
    "rendered (update_markers ms c) = new"
    "markersRef (update_markers ms c) = new"
    "created (update_markers ms c) = created c + length new"
    "\<forall>mk \<in> set new. created c \<le> marker_id mk \<and> marker_id mk < created c + length new"
    by blast
  then have "list_all (\<lambda>mk. marker_id mk < created c + length new) new"
    by (simp add: list_all_iff)
  with new(1-4) show ?thesis
    by (auto simp: linked_def rendered_def split: option.splits)
qed

lemma update_view_keeps_linked: "linked c \<Longrightarrow> linked (update_view ctr z c)"
  by (auto simp: linked_def update_view_def split: option.splits)

lemma rerender_keeps_linked: "linked c \<Longrightarrow> linked (rerender ch c)"
  by (cases ch) (simp_all add: update_markers_keeps_linked update_view_keeps_linked)

lemma linked_mount_map: "linked (mount_map p)"
proof -
  have "linked (update_view (center p) (zoom p)
          (init_map p \<lparr>mapRef = True, mapInstanceRef = None, markersRef = [],
                       created = 0, calls = []\<rparr>))"
    by (simp add: linked_def update_view_def init_map_def)
  then show ?thesis
    unfolding mount_map_def by (rule update_markers_keeps_linked)
qed

lemma linked_fold_rerender: "linked c \<Longrightarrow> linked (fold rerender chs c)"
  by (induction chs arbitrary: c) (simp_all add: rerender_keeps_linked)


text \<open>
  C9: in every state of a mounted component, a render with a new list of markers first
  calls \<open>remove\<close> on every marker that was on the map and only then adds markers,
  none of which was there before; afterwards the map shows, in the order of the list,
  one marker for each entry that has a position, with the icon of its type and the
  popup of its title, and nothing for the entries without position.
\<close>

theorem C9_markers_replaced:
  "c = fold rerender chs (mount_map p) \<Longrightarrow> c' = rerender (NewMarkers ms) c \<Longrightarrow>
     calls c' = calls c @ map Removed (map marker_id (rendered c))
                        @ map Added (map marker_id (rendered c'))
     \<and> set (map marker_id (rendered c)) \<inter> set (map marker_id (rendered c')) = {}
     \<and> map shown (rendered c') = List.map_filter drawn ms
     \<and> length (rendered c') = length (filter (\<lambda>md. position md \<noteq> None) ms)"
proof -
  assume c: "c = fold rerender chs (mount_map p)" and "c' = rerender (NewMarkers ms) c"
  then have c': "c' = update_markers ms c"
    by simp
  have l: "linked c"
    unfolding c by (rule linked_fold_rerender) (rule linked_mount_map)
  from update_markers_linked [OF l, of ms] obtain new where new:
    "rendered c = markersRef c"
    "rendered c' = new"
    "calls c' = calls c @ map Removed (map marker_id (markersRef c)) @ map Added (map marker_id new)"
    "\<forall>mk \<in> set new. created c \<le> marker_id mk \<and> marker_id mk < created c + length new"
    "map shown new = List.map_filter drawn ms"
    unfolding c' by blast
  from l have old: "\<forall>mk \<in> set (markersRef c). marker_id mk < created c"
    by (auto simp: linked_def list_all_iff split: option.splits)
  have "set (map marker_id (markersRef c)) \<inter> set (map marker_id new) = {}"
    using old new(4) by fastforce
  moreover have "length new = length (filter (\<lambda>md. position md \<noteq> None) ms)"
  proof -
    have "length new = length (map shown new)"
      by simp
    also have "\<dots> = length (List.map_filter drawn ms)"
      by (simp only: new(5))
    also have "\<dots> = length (filter (\<lambda>md. drawn md \<noteq> None) ms)"
      by (simp add: map_filter_def)
    also have "(\<lambda>md::'a markerData. drawn md \<noteq> None) = (\<lambda>md. position md \<noteq> None)"
      by (auto simp: drawn_def split: option.splits)
    finally show ?thesis .
  qed
  ultimately show ?thesis
    using new by simp
qed

theorem C9_markers_replaced_witness:
  "map shown (rendered (rerender (NewMarkers
       [\<lparr>position = Some \<lparr>lat = 1, lng = 2\<rparr>, type = JStr ''ngo'', title = JStr ''Kitchen''\<rparr>,
        \<lparr>position = None, type = JStr ''donor'', title = JStr ''Cafe''\<rparr>,
        \<lparr>position = Some \<lparr>lat = 3, lng = 4\<rparr>, type = JStr ''shop'', title = JUndefined\<rparr>])
       (fold rerender [NewView \<lparr>lat = 5, lng = 5\<rparr> 10]
          (mount_map \<lparr>center = \<lparr>lat = 0, lng = 0\<rparr>, zoom = (12::nat),
             markers = [\<lparr>position = Some \<lparr>lat = 7, lng = 8\<rparr>, type = JStr ''donor'',
                         title = JNull\<rparr>],
             onClick = False\<rparr>))))
   = [(\<lparr>lat = 1, lng = 2\<rparr>, ngoIcon, Some ''<strong>Kitchen</strong>''),
      (\<lparr>lat = 3, lng = 4\<rparr>, defaultIcon, None)]
   \<and> calls (rerender (NewMarkers
       [\<lparr>position = Some \<lparr>lat = 1, lng = 2\<rparr>, type = JStr ''ngo'', title = JStr ''Kitchen''\<rparr>,
        \<lparr>position = None, type = JStr ''donor'', title = JStr ''Cafe''\<rparr>,
        \<lparr>position = Some \<lparr>lat = 3, lng = 4\<rparr>, type = JStr ''shop'', title = JUndefined\<rparr>])
       (fold rerender [NewView \<lparr>lat = 5, lng = 5\<rparr> 10]
          (mount_map \<lparr>center = \<lparr>lat = 0, lng = 0\<rparr>, zoom = (12::nat),
             markers = [\<lparr>position = Some \<lparr>lat = 7, lng = 8\<rparr>, type = JStr ''donor'',
                         title = JNull\<rparr>],
             onClick = False\<rparr>)))
   = [Added 0, Removed 0, Added 1, Added 2]"
proof -
  let ?ms = "[\<lparr>position = Some \<lparr>lat = 1, lng = 2\<rparr>, type = JStr ''ngo'', title = JStr ''Kitchen''\<rparr>,
        \<lparr>position = None, type = JStr ''donor'', title = JStr ''Cafe''\<rparr>,
        \<lparr>position = Some \<lparr>lat = 3, lng = (4::nat)\<rparr>, type = JStr ''shop'', title = JUndefined\<rparr>]"
  let ?c = "fold rerender [NewView \<lparr>lat = 5, lng = 5\<rparr> 10]
          (mount_map \<lparr>center = \<lparr>lat = 0, lng = 0\<rparr>, zoom = (12::nat),
             markers = [\<lparr>position = Some \<lparr>lat = 7, lng = 8\<rparr>, type = JStr ''donor'',
                         title = JNull\<rparr>],
             onClick = False\<rparr>)"
  from C9_markers_replaced [OF refl refl, of ?ms "[NewView \<lparr>lat = 5, lng = 5\<rparr> 10]"]
  have "map shown (rendered (rerender (NewMarkers ?ms) ?c)) = List.map_filter drawn ?ms"
    by blast
  also have "\<dots> = [(\<lparr>lat = 1, lng = 2\<rparr>, ngoIcon, Some ''<strong>Kitchen</strong>''),
      (\<lparr>lat = 3, lng = 4\<rparr>, defaultIcon, None)]"
    by (simp add: List.map_filter_simps drawn_def icon_for_def popup_for_def)
  finally have a: "map shown (rendered (rerender (NewMarkers ?ms) ?c)) =
     [(\<lparr>lat = 1, lng = 2\<rparr>, ngoIcon, Some ''<strong>Kitchen</strong>''),
      (\<lparr>lat = 3, lng = 4\<rparr>, defaultIcon, None)]" .
  have b: "calls (rerender (NewMarkers ?ms) ?c) = [Added 0, Removed 0, Added 1, Added 2]"
    by (simp add: mount_map_def update_markers_def init_map_def update_view_def
        add_marker_def remove_marker_def Let_def)
  from a b show ?thesis
    by (rule conjI)
qed

end
